theory Spec2Isabelle
  imports Complex_Main "HOL-Library.Sublist"
begin

section \<open>JavaScript values, errors and external calls\<close>

text \<open>
  The server actions of \<^verbatim>\<open>src/app/generate/actions.ts\<close> read third-party JSON through
  untyped property access (\<^verbatim>\<open>res.data\<close> has type \<^verbatim>\<open>any\<close>), so the response is modelled
  as a JavaScript value with \<^verbatim>\<open>undefined\<close> and \<^verbatim>\<open>null\<close> kept apart. Numbers are exact
  rationals: IEEE-754 rounding is outside this model.
\<close>

datatype jsval =
    JUndefined
  | JNull
  | JBool bool
  | JNum rat
  | JStr string
  | JArr "jsval list"
  | JObj "(string \<times> jsval) list"

text \<open>
  A thrown value. \<open>Error msg\<close> is \<^verbatim>\<open>new Error(msg)\<close>, \<open>TypeError\<close> is what the engine
  raises on a bad property read or call, \<open>LibraryError name msg\<close> is whatever axios, xmldom,
  the OpenAI client or the file system throws.
\<close>

datatype js_error =
    Error string
  | TypeError string
  | LibraryError string string

text \<open>Property read \<^verbatim>\<open>o.k\<close> for a key \<open>k\<close> that no built-in prototype defines (the program
  reads \<^verbatim>\<open>lengthSeconds\<close>, \<^verbatim>\<open>subtitles\<close>, \<^verbatim>\<open>languageCode\<close> and \<^verbatim>\<open>url\<close>): it throws on
  \<^verbatim>\<open>undefined\<close> and \<^verbatim>\<open>null\<close>, looks the key up in an object, and is \<^verbatim>\<open>undefined\<close> on
  every other value.\<close>

fun js_get :: "jsval \<Rightarrow> string \<Rightarrow> js_error + jsval" where
  "js_get JUndefined k = Inl (TypeError (''Cannot read properties of undefined (reading '' @ k @ '')''))"
| "js_get JNull k = Inl (TypeError (''Cannot read properties of null (reading '' @ k @ '')''))"
| "js_get (JObj kvs) k = Inr (case map_of kvs k of None \<Rightarrow> JUndefined | Some v \<Rightarrow> v)"
| "js_get (JBool b) k = Inr JUndefined"
| "js_get (JNum n) k = Inr JUndefined"
| "js_get (JStr s) k = Inr JUndefined"
| "js_get (JArr vs) k = Inr JUndefined"

text \<open>Optional chaining \<^verbatim>\<open>o?.k\<close>.\<close>

definition js_get_opt :: "jsval \<Rightarrow> string \<Rightarrow> js_error + jsval" where
  "js_get_opt v k = (if v = JUndefined \<or> v = JNull then Inr JUndefined else js_get v k)"

fun js_truthy :: "jsval \<Rightarrow> bool" where
  "js_truthy JUndefined = False"
| "js_truthy JNull = False"
| "js_truthy (JBool b) = b"
| "js_truthy (JNum n) = (n \<noteq> 0)"
| "js_truthy (JStr s) = (s \<noteq> [])"
| "js_truthy (JArr vs) = True"
| "js_truthy (JObj kvs) = True"

text \<open>The operator \<^verbatim>\<open>a || b\<close>.\<close>

definition js_or :: "jsval \<Rightarrow> jsval \<Rightarrow> jsval" where
  "js_or a b = (if js_truthy a then a else b)"

text \<open>\<^verbatim>\<open>Array.prototype.find\<close>: the first element the callback accepts, \<^verbatim>\<open>undefined\<close> when
  there is none; an exception of the callback ends the search.\<close>

fun find_loop :: "(jsval \<Rightarrow> js_error + bool) \<Rightarrow> jsval list \<Rightarrow> js_error + jsval" where
  "find_loop p [] = Inr JUndefined"
| "find_loop p (v # vs) =
     (case p v of
        Inl e \<Rightarrow> Inl e
      | Inr found \<Rightarrow> if found then Inr v else find_loop p vs)"

text \<open>The call \<^verbatim>\<open>a.find(p)\<close>: only an array has the method.\<close>

fun js_find :: "jsval \<Rightarrow> (jsval \<Rightarrow> js_error + bool) \<Rightarrow> js_error + jsval" where
  "js_find (JArr vs) p = find_loop p vs"
| "js_find JUndefined p = Inl (TypeError ''Cannot read properties of undefined (reading find)'')"
| "js_find JNull p = Inl (TypeError ''Cannot read properties of null (reading find)'')"
| "js_find (JBool b) p = Inl (TypeError ''find is not a function'')"
| "js_find (JNum n) p = Inl (TypeError ''find is not a function'')"
| "js_find (JStr s) p = Inl (TypeError ''find is not a function'')"
| "js_find (JObj kvs) p = Inl (TypeError ''find is not a function'')"

section \<open>Data model\<close>

text \<open>\<^verbatim>\<open>VideoMetaData\<close>; the field \<^verbatim>\<open>length\<close> is named \<open>length_md\<close> here. Both fields hold
  whatever value the code stores, whatever the declared type says.\<close>

record VideoMetaData =
  length_md :: jsval
  subtitlesURL :: jsval

record SubtitleItem =
  "text" :: string

record SlideContent =
  title :: string
  content :: "string list"

record TitleDescription =
  td_title :: string
  description :: string

text \<open>The payload type of \<^verbatim>\<open>arrayOfObjectsSchema\<close>.\<close>

record ArrayOfObjects =
  arrayOfObjects :: "SlideContent list"

text \<open>The axios request configuration: method, url, query parameters, headers.\<close>

datatype axios_request_config =
  AxiosRequestConfig string string "(string \<times> string) list" "(string \<times> string option) list"

record AxiosResponse =
  data :: jsval

text \<open>A parsed XML document as xmldom builds it: the element's string is its tag name.\<close>

datatype xmlnode =
    Element string "xmlnode list"
  | Text string
  | CDATASection string
  | Comment string
  | ProcessingInstruction string string

datatype xmldocument = Document "xmlnode list"

text \<open>The chat completion request: the messages (role, content), the model name and the
  requested structured output (schema, name).\<close>

datatype zod_schema = TitleAndDescriptionSchema | arrayOfObjectsSchema

record ChatRequest =
  messages :: "(string \<times> string) list"
  model :: string
  response_format :: "zod_schema \<times> string"

text \<open>The completion the OpenAI helper returns. Its \<^verbatim>\<open>parsed\<close> payload has been validated
  against the requested schema by the helper, or is \<^verbatim>\<open>null\<close>; \<^verbatim>\<open>message\<close> is read with
  \<^verbatim>\<open>?.\<close>, so it may be missing.\<close>

record 'p ParsedMessage =
  parsed :: "'p option"

record 'p ParsedChoice =
  message :: "'p ParsedMessage option"

record 'p ParsedChatCompletion =
  choices :: "'p ParsedChoice list"

text \<open>The deck under construction: pptxgenjs positions are inches or a percentage.\<close>

datatype coord = Inches rat | Percent nat

datatype alignment = AlignLeft | AlignCenter

record text_options =
  opt_x :: coord
  opt_y :: coord
  opt_w :: coord
  opt_h :: coord
  fontSize :: nat
  bold :: bool
  color :: string
  align :: alignment
  fontFace :: string
  bullet :: bool

record text_object =
  obj_text :: string
  options :: text_options

record slide =
  background :: "string option"
  objects :: "text_object list"

type_synonym pptxgen = "slide list"

text \<open>What the renderer returns.\<close>

record GeneratedFile =
  fileName :: string
  filePath :: string

text \<open>Every call that leaves the process, and every line written to the error log, in the
  order the code performs them.\<close>

datatype event =
    AxiosGet string
  | AxiosRequest axios_request_config
  | ParseFromString jsval string
  | ChatCompletionsParse ChatRequest
  | RandomUUID
  | WriteFile pptxgen string
  | ConsoleError js_error

type_synonym 'a io = "(js_error + 'a) \<times> event list"

text \<open>The pattern every component ends with:
  \<^verbatim>\<open>catch (error) { console.error(error); throw new Error(msg); }\<close>.\<close>

definition catch_rethrow :: "string \<Rightarrow> 'a io \<Rightarrow> 'a io" where
  "catch_rethrow msg r =
     (case fst r of
        Inr v \<Rightarrow> r
      | Inl e \<Rightarrow> (Inl (Error msg), snd r @ [ConsoleError e]))"

section \<open>The pipeline entry point\<close>

text \<open>\<^verbatim>\<open>export const CreatePowerpoint = async (videoId: string) => { }\<close>: an empty body.\<close>

definition CreatePowerpoint :: "string \<Rightarrow> jsval io" where
  "CreatePowerpoint videoId = (Inr JUndefined, [])"

section \<open>Video metadata fetcher\<close>

text \<open>The callback of \<^verbatim>\<open>find\<close>: \<^verbatim>\<open>subtitle.languageCode === 'en'\<close>.\<close>

definition is_en :: "jsval \<Rightarrow> js_error + bool" where
  "is_en subtitle =
     (case js_get subtitle ''languageCode'' of
        Inl e \<Rightarrow> Inl e
      | Inr code \<Rightarrow> Inr (code = JStr ''en''))"

text \<open>The object literal the function returns, its fields evaluated in source order.\<close>

definition metadata_of_response :: "AxiosResponse \<Rightarrow> js_error + VideoMetaData" where
  "metadata_of_response res =
     (case js_get (data res) ''lengthSeconds'' of
        Inl e \<Rightarrow> Inl e
      | Inr len \<Rightarrow>
     (case js_get (data res) ''subtitles'' of
        Inl e \<Rightarrow> Inl e
      | Inr outer \<Rightarrow>
     (case js_get outer ''subtitles'' of
        Inl e \<Rightarrow> Inl e
      | Inr inner \<Rightarrow>
     (case js_find inner is_en of
        Inl e \<Rightarrow> Inl e
      | Inr entry \<Rightarrow>
     (case js_get_opt entry ''url'' of
        Inl e \<Rightarrow> Inl e
      | Inr u \<Rightarrow> Inr \<lparr>length_md = len, subtitlesURL = js_or u JNull\<rparr>)))))"

text \<open>The constant \<^verbatim>\<open>options\<close> of the function; \<open>RAPID_API_KEY\<close> is the environment
  variable of that name.\<close>

definition video_info_options :: "string option \<Rightarrow> string \<Rightarrow> axios_request_config" where
  "video_info_options RAPID_API_KEY videoId =
     AxiosRequestConfig ''GET'' ''https://yt-api.p.rapidapi.com/video/info''
       [(''id'', videoId)]
       [(''x-rapidapi-key'', RAPID_API_KEY),
        (''x-rapidapi-host'', Some ''yt-api.p.rapidapi.com'')]"

text \<open>\<open>axios_request\<close> stands for \<^verbatim>\<open>axios.request\<close>.\<close>

definition GetVideoLengthAndSubtitles ::
  "(axios_request_config \<Rightarrow> js_error + AxiosResponse) \<Rightarrow> string option \<Rightarrow> string \<Rightarrow> VideoMetaData io"
where
  "GetVideoLengthAndSubtitles axios_request RAPID_API_KEY videoId =
     catch_rethrow ''Failed to get video length and subtitles''
       (case axios_request (video_info_options RAPID_API_KEY videoId) of
          Inl e \<Rightarrow> Inl e
        | Inr res \<Rightarrow> metadata_of_response res,
        [AxiosRequest (video_info_options RAPID_API_KEY videoId)])"

section \<open>Subtitle parser\<close>

text \<open>
  xmldom is a dependency, not part of the repository; the two members the parser uses are
  modelled from the library. \<^verbatim>\<open>getElementsByTagName\<close> walks the tree below the node it is
  called on with \<^verbatim>\<open>_visitNode\<close>, which calls back on a node and then visits its children
  from first to last; the callback pushes every element whose tag name matches (or every
  element for \<^verbatim>\<open>*\<close>) onto the result list \<open>ls\<close>.
\<close>

fun visitNode :: "string \<Rightarrow> xmlnode \<Rightarrow> xmlnode list \<Rightarrow> xmlnode list"
  and visitChildren :: "string \<Rightarrow> xmlnode list \<Rightarrow> xmlnode list \<Rightarrow> xmlnode list" where
  "visitNode tagName (Element n cs) ls =
     visitChildren tagName cs
       (if tagName = ''*'' \<or> n = tagName then ls @ [Element n cs] else ls)"
| "visitNode tagName (Text d) ls = ls"
| "visitNode tagName (CDATASection d) ls = ls"
| "visitNode tagName (Comment d) ls = ls"
| "visitNode tagName (ProcessingInstruction t d) ls = ls"
| "visitChildren tagName [] ls = ls"
| "visitChildren tagName (c # cs) ls = visitChildren tagName cs (visitNode tagName c ls)"

fun getElementsByTagName :: "xmldocument \<Rightarrow> string \<Rightarrow> xmlnode list" where
  "getElementsByTagName (Document cs) tagName = visitChildren tagName cs []"

text \<open>\<^verbatim>\<open>textContent\<close>: an element joins the text content of its children, leaving out
  comments and processing instructions (node types 8 and 7); any other node gives its
  \<^verbatim>\<open>nodeValue\<close>.\<close>

fun skipped :: "xmlnode \<Rightarrow> bool" where
  "skipped (Comment d) = True"
| "skipped (ProcessingInstruction t d) = True"
| "skipped (Element n cs) = False"
| "skipped (Text d) = False"
| "skipped (CDATASection d) = False"

fun textContent :: "xmlnode \<Rightarrow> string" where
  "textContent (Element n cs) = concat (map (\<lambda>c. if skipped c then [] else textContent c) cs)"
| "textContent (Text d) = d"
| "textContent (CDATASection d) = d"
| "textContent (Comment d) = d"
| "textContent (ProcessingInstruction t d) = d"

text \<open>\<^verbatim>\<open>a || b\<close> on strings: the empty string is the only falsy one.\<close>

definition str_or :: "string \<Rightarrow> string \<Rightarrow> string" where
  "str_or a b = (if a \<noteq> [] then a else b)"

text \<open>\<open>axios_get\<close> stands for \<^verbatim>\<open>axios.get\<close> and \<open>parseFromString\<close> for the method of
  \<^verbatim>\<open>new DOMParser()\<close>, which throws, or returns a document, or returns \<^verbatim>\<open>undefined\<close>
  (\<open>None\<close>). The declared result \<^verbatim>\<open>SubtitleItem[] | null\<close> is a list option.\<close>

definition parseXMLContent ::
  "(string \<Rightarrow> js_error + AxiosResponse) \<Rightarrow> (jsval \<Rightarrow> string \<Rightarrow> js_error + xmldocument option)
     \<Rightarrow> string \<Rightarrow> SubtitleItem list option io"
where
  "parseXMLContent axios_get parseFromString url =
     catch_rethrow ''Failed to parse XML content''
       (case axios_get url of
          Inl e \<Rightarrow> (Inl e, [AxiosGet url])
        | Inr res \<Rightarrow>
            (case parseFromString (data res) ''application/xml'' of
               Inl e \<Rightarrow> Inl e
             | Inr None \<Rightarrow>
                 Inl (TypeError
                   ''Cannot read properties of undefined (reading getElementsByTagName)'')
             | Inr (Some doc) \<Rightarrow>
                 (let textElements = getElementsByTagName doc ''text''
                  in Inr (Some (map (\<lambda>element. \<lparr>text = str_or (textContent element) ''''\<rparr>)
                                  textElements))),
             [AxiosGet url, ParseFromString (data res) ''application/xml'']))"

text \<open>The words of the specification, for comparison: the nodes of a document in document
  order, the elements of a given name among them, and their number.\<close>

fun document_order :: "xmlnode \<Rightarrow> xmlnode list" where
  "document_order (Element n cs) = Element n cs # concat (map document_order cs)"
| "document_order (Text d) = [Text d]"
| "document_order (CDATASection d) = [CDATASection d]"
| "document_order (Comment d) = [Comment d]"
| "document_order (ProcessingInstruction t d) = [ProcessingInstruction t d]"

fun is_element_named :: "string \<Rightarrow> xmlnode \<Rightarrow> bool" where
  "is_element_named t (Element n cs) = (n = t)"
| "is_element_named t (Text d) = False"
| "is_element_named t (CDATASection d) = False"
| "is_element_named t (Comment d) = False"
| "is_element_named t (ProcessingInstruction u d) = False"

fun elements_named :: "string \<Rightarrow> xmldocument \<Rightarrow> xmlnode list" where
  "elements_named t (Document cs) = filter (is_element_named t) (concat (map document_order cs))"

fun count_named :: "string \<Rightarrow> xmlnode \<Rightarrow> nat" where
  "count_named t (Element n cs) = (if n = t then 1 else 0) + sum_list (map (count_named t) cs)"
| "count_named t (Text d) = 0"
| "count_named t (CDATASection d) = 0"
| "count_named t (Comment d) = 0"
| "count_named t (ProcessingInstruction u d) = 0"

fun count_elements_named :: "string \<Rightarrow> xmldocument \<Rightarrow> nat" where
  "count_elements_named t (Document cs) = sum_list (map (count_named t) cs)"

section \<open>Title and slide generators\<close>

text \<open>\<^verbatim>\<open>completion.choices[0].message?.parsed\<close>: reading \<^verbatim>\<open>message\<close> of a missing first choice
  throws; a missing message or payload gives \<^verbatim>\<open>undefined\<close> or \<^verbatim>\<open>null\<close> (\<open>None\<close>).\<close>

definition first_parsed :: "'p ParsedChatCompletion \<Rightarrow> js_error + 'p option" where
  "first_parsed completion =
     (case choices completion of
        [] \<Rightarrow> Inl (TypeError ''Cannot read properties of undefined (reading message)'')
      | c # cs \<Rightarrow> Inr (case message c of None \<Rightarrow> None | Some m \<Rightarrow> parsed m))"

definition title_prompt_head :: string where
  "title_prompt_head =
     ''\<newline>        Generate a title and description for this Powerpoint presentation based on the following transcript. \<newline>'' @
     ''        Requirements: \<newline>'' @
     ''        - Title should be fewer than 20 words \<newline>'' @
     ''        - description should be fewer than 35 words \<newline>'' @
     ''        - Focus on content rather than speaker \<newline>'' @
     ''        - make sure the output is in English \<newline>'' @
     ''\<newline>'' @
     ''        Transcript: ''"

definition title_prompt_tail :: string where
  "title_prompt_tail = ''\<newline>    ''"

text \<open>The argument of the completion call, built from \<^verbatim>\<open>promptTemplate\<close>.\<close>

definition title_request :: "string \<Rightarrow> ChatRequest" where
  "title_request transcript =
     (let promptTemplate = title_prompt_head @ transcript @ title_prompt_tail
      in \<lparr>messages =
            [(''system'',
              ''You are a helpful assistant designed to generate titles and descriptions''),
             (''user'', promptTemplate)],
          model = ''gpt-4o-mini'',
          response_format = (TitleAndDescriptionSchema, ''title'')\<rparr>)"

text \<open>\<open>chat_parse\<close> stands for \<^verbatim>\<open>openai.beta.chat.completions.parse\<close> at the
  title-and-description schema.\<close>

definition CreateTitleAndDescription ::
  "(ChatRequest \<Rightarrow> js_error + TitleDescription ParsedChatCompletion) \<Rightarrow> string
     \<Rightarrow> TitleDescription io"
where
  "CreateTitleAndDescription chat_parse transcript =
     catch_rethrow ''Failed to generate title and description''
       (case chat_parse (title_request transcript) of
          Inl e \<Rightarrow> Inl e
        | Inr completion \<Rightarrow>
            (case first_parsed completion of
               Inl e \<Rightarrow> Inl e
             | Inr None \<Rightarrow> Inl (Error ''Failed to generate title and description'')
             | Inr (Some res) \<Rightarrow> Inr res),
        [ChatCompletionsParse (title_request transcript)])"

text \<open>The decimal digits of a natural number.\<close>

fun string_of_nat :: "nat \<Rightarrow> string" where
  "string_of_nat n =
     (if n < 10 then [''0123456789'' ! n]
      else string_of_nat (n div 10) @ [''0123456789'' ! (n mod 10)])"

text \<open>\<^verbatim>\<open>Number.isSafeInteger\<close>: an integer of magnitude at most \<open>2^53 - 1\<close>.\<close>

definition isSafeInteger :: "int \<Rightarrow> bool" where
  "isSafeInteger k = (\<bar>k\<bar> \<le> 2 ^ 53 - 1)"

text \<open>The string \<^verbatim>\<open>${slideCount}\<close> puts into the template, for an integer-valued number
  \<open>k\<close>. The engine prints a safe integer as its decimal digits, with a minus sign when
  negative. Outside the safe range it prints the shortest digits that read back as the
  same double, and from \<open>10^21\<close> on it uses exponent notation (\<^verbatim>\<open>1e+21\<close>); that part of
  the engine is not modelled and is taken as the parameter \<open>large_toString\<close>.\<close>

definition number_toString :: "(int \<Rightarrow> string) \<Rightarrow> int \<Rightarrow> string" where
  "number_toString large_toString k =
     (if isSafeInteger k
      then (if k < 0 then CHR ''-'' # string_of_nat (nat (- k)) else string_of_nat (nat k))
      else large_toString k)"

definition slides_prompt_head :: string where
  "slides_prompt_head =
     ''\<newline>        Condense and tidy up the following text to make it suitable for a Powerpoint presentation. Transform it \<newline>'' @
     ''        into an array of objects. I have provided the schema for the output. Make sure that the content array has between 3 and 4 items, \<newline>'' @
     ''        and each content string should be between 160 and 170 characters. You can add to the content based on the transcript.. \<newline>'' @
     ''        The length of the array should be ''"

definition slides_prompt_middle :: string where
  "slides_prompt_middle = ''.\<newline>        The text to process is as follows: ''"

definition slides_prompt_tail :: string where
  "slides_prompt_tail = ''\<newline>    ''"

text \<open>The argument of the completion call, built from \<^verbatim>\<open>promptTemplate\<close>; the parameter
  \<^verbatim>\<open>text\<close> is \<open>txt\<close> here.\<close>

definition slides_request :: "(int \<Rightarrow> string) \<Rightarrow> string \<Rightarrow> int \<Rightarrow> ChatRequest" where
  "slides_request large_toString txt slideCount =
     (let promptTemplate = slides_prompt_head @ number_toString large_toString slideCount @
                           slides_prompt_middle @ txt @ slides_prompt_tail
      in \<lparr>messages =
            [(''system'',
              ''You are a helpful assistant designed to convert text into objects. You output JSON based on a schema I provide.''),
             (''user'', promptTemplate)],
          model = ''gpt-4o-mini'',
          response_format = (arrayOfObjectsSchema, ''arrayOfObjects'')\<rparr>)"

text \<open>The optional second argument is \<open>None\<close> when the caller omits it: the default
  parameter \<^verbatim>\<open>slideCount = 10\<close> applies. The declared result \<^verbatim>\<open>SlideContent[] | null\<close> is a
  list option.\<close>

definition ConvertToObjects ::
  "(ChatRequest \<Rightarrow> js_error + ArrayOfObjects ParsedChatCompletion) \<Rightarrow> (int \<Rightarrow> string)
     \<Rightarrow> string \<Rightarrow> int option \<Rightarrow> SlideContent list option io"
where
  "ConvertToObjects chat_parse large_toString txt slideCount_arg =
     (let slideCount = (case slideCount_arg of None \<Rightarrow> 10 | Some k \<Rightarrow> k)
      in catch_rethrow ''Failed to convert text to objects''
           (case chat_parse (slides_request large_toString txt slideCount) of
              Inl e \<Rightarrow> Inl e
            | Inr completion \<Rightarrow>
                (case first_parsed completion of
                   Inl e \<Rightarrow> Inl e
                 | Inr None \<Rightarrow> Inl (Error ''Failed to convert text to objects'')
                 | Inr (Some res) \<Rightarrow> Inr (Some (arrayOfObjects res))),
            [ChatCompletionsParse (slides_request large_toString txt slideCount)]))"

section \<open>Deck renderer\<close>

text \<open>A slide object is a reference into the presentation; here it is the slide's index.
  \<open>addSlide\<close> appends an empty slide and returns its index, so every index the renderer
  uses is in range.\<close>

definition addSlide :: "pptxgen \<Rightarrow> nat \<times> pptxgen" where
  "addSlide pptx = (length pptx, pptx @ [\<lparr>background = None, objects = []\<rparr>])"

definition set_background :: "nat \<Rightarrow> string \<Rightarrow> pptxgen \<Rightarrow> pptxgen" where
  "set_background s c pptx = pptx[s := (pptx ! s)\<lparr>background := Some c\<rparr>]"

definition addText :: "nat \<Rightarrow> string \<Rightarrow> text_options \<Rightarrow> pptxgen \<Rightarrow> pptxgen" where
  "addText s t opts pptx =
     pptx[s := (pptx ! s)\<lparr>objects := objects (pptx ! s) @ [\<lparr>obj_text = t, options = opts\<rparr>]\<rparr>]"

definition title_options :: text_options where
  "title_options =
     \<lparr>opt_x = Inches 0, opt_y = Percent 40, opt_w = Percent 100, opt_h = Inches 1,
      fontSize = 33, bold = True, color = ''003366'', align = AlignCenter,
      fontFace = ''Helvetica'', bullet = False\<rparr>"

definition description_options :: text_options where
  "description_options =
     \<lparr>opt_x = Inches 0, opt_y = Percent 58, opt_w = Percent 100, opt_h = Inches (75 / 100),
      fontSize = 18, bold = False, color = ''888888'', align = AlignCenter,
      fontFace = ''Helvetica'', bullet = False\<rparr>"

definition heading_options :: text_options where
  "heading_options =
     \<lparr>opt_x = Inches (5 / 10), opt_y = Inches (5 / 10), opt_w = Inches (85 / 10), opt_h = Inches 1,
      fontSize = 32, bold = True, color = ''003366'', align = AlignCenter,
      fontFace = ''Arial'', bullet = False\<rparr>"

definition bullet_options :: "nat \<Rightarrow> text_options" where
  "bullet_options index =
     \<lparr>opt_x = Inches 1, opt_y = Inches (18 / 10 + of_nat index * 1), opt_w = Inches 8,
      opt_h = Inches (75 / 100),
      fontSize = 15, bold = False, color = ''333333'', align = AlignLeft,
      fontFace = ''Arial'', bullet = True\<rparr>"

text \<open>\<^verbatim>\<open>content.forEach((bullet, index) => slide.addText(bullet, ...))\<close>, from \<open>index\<close> on.\<close>

fun forEach_content :: "nat \<Rightarrow> nat \<Rightarrow> string list \<Rightarrow> pptxgen \<Rightarrow> pptxgen" where
  "forEach_content s index [] pptx = pptx"
| "forEach_content s index (b # bs) pptx =
     forEach_content s (Suc index) bs (addText s b (bullet_options index) pptx)"

text \<open>\<^verbatim>\<open>slides.forEach(({ title, content }) => ...)\<close>.\<close>

fun forEach_slides :: "SlideContent list \<Rightarrow> pptxgen \<Rightarrow> pptxgen" where
  "forEach_slides [] pptx = pptx"
| "forEach_slides (sc # rest) pptx =
     (let (s, pptx1) = addSlide pptx;
          pptx2 = addText s (title sc) heading_options pptx1;
          pptx3 = forEach_content s 0 (content sc) pptx2
      in forEach_slides rest pptx3)"

text \<open>The statements before the \<^verbatim>\<open>try\<close> block: the title slide, then the content slides.\<close>

definition build_deck :: "TitleDescription \<Rightarrow> SlideContent list \<Rightarrow> pptxgen" where
  "build_deck titleAndDescription slides =
     (let (titleSlide, pptx1) = addSlide [];
          pptx2 = set_background titleSlide ''#ffffff'' pptx1;
          pptx3 = addText titleSlide (td_title titleAndDescription) title_options pptx2;
          pptx4 = addText titleSlide (description titleAndDescription) description_options pptx3
      in forEach_slides slides pptx4)"

text \<open>
  Node's \<^verbatim>\<open>path.join\<close> on a POSIX system, which belongs to the platform and not to the
  repository: it joins the non-empty arguments with \<^verbatim>\<open>/\<close> and normalises the result. The
  normalisation drops empty and \<^verbatim>\<open>.\<close> segments and lets a \<^verbatim>\<open>..\<close> segment remove the
  segment before it; above the root of an absolute path \<^verbatim>\<open>..\<close> is dropped.
\<close>

fun split_on :: "char \<Rightarrow> string \<Rightarrow> string list" where
  "split_on c [] = [[]]"
| "split_on c (x # xs) =
     (if x = c then [] # split_on c xs
      else (case split_on c xs of [] \<Rightarrow> [[x]] | s # ss \<Rightarrow> (x # s) # ss))"

fun normalize_segments :: "bool \<Rightarrow> string list \<Rightarrow> string list \<Rightarrow> string list" where
  "normalize_segments allowAboveRoot res [] = res"
| "normalize_segments allowAboveRoot res (s # ss) =
     (if s = [] \<or> s = ''.'' then normalize_segments allowAboveRoot res ss
      else if s = ''..'' then
        (if res \<noteq> [] \<and> last res \<noteq> ''..'' then normalize_segments allowAboveRoot (butlast res) ss
         else if allowAboveRoot then normalize_segments allowAboveRoot (res @ [''..'']) ss
         else normalize_segments allowAboveRoot res ss)
      else normalize_segments allowAboveRoot (res @ [s]) ss)"

fun join_segments :: "string list \<Rightarrow> string" where
  "join_segments [] = []"
| "join_segments [s] = s"
| "join_segments (s # t # ss) = s @ ''/'' @ join_segments (t # ss)"

definition path_normalize :: "string \<Rightarrow> string" where
  "path_normalize p =
     (if p = [] then ''.''
      else
        (let isAbsolute = (hd p = CHR ''/'');
             trailingSeparator = (last p = CHR ''/'');
             res = join_segments (normalize_segments (\<not> isAbsolute) [] (split_on CHR ''/'' p))
         in if res = [] then (if isAbsolute then ''/'' else if trailingSeparator then ''./'' else ''.'')
            else (let res1 = (if trailingSeparator then res @ ''/'' else res)
                  in if isAbsolute then CHR ''/'' # res1 else res1)))"

definition path_join :: "string \<Rightarrow> string \<Rightarrow> string" where
  "path_join a b =
     (if a = [] \<and> b = [] then ''.''
      else path_normalize (if a = [] then b else if b = [] then a else a @ ''/'' @ b))"

text \<open>\<open>uuid\<close> is the string \<^verbatim>\<open>randomUUID()\<close> returns at this call, \<open>writeFile\<close> stands for
  \<^verbatim>\<open>pptx.writeFile\<close>.\<close>

definition CreatePowerpointFromArrayOfObjects ::
  "string \<Rightarrow> (pptxgen \<Rightarrow> string \<Rightarrow> js_error + unit) \<Rightarrow> TitleDescription \<Rightarrow> SlideContent list
     \<Rightarrow> string \<Rightarrow> GeneratedFile io"
where
  "CreatePowerpointFromArrayOfObjects uuid writeFile titleAndDescription slides userId =
     (let pptx = build_deck titleAndDescription slides;
          fname = ''presentation-'' @ uuid @ ''-userId='' @ userId @ ''.pptx'';
          fpath = path_join ''/tmp'' fname
      in catch_rethrow ''Failed to create Powerpoint presentation''
           (case writeFile pptx fpath of
              Inl e \<Rightarrow> Inl e
            | Inr u \<Rightarrow> Inr \<lparr>fileName = fname, filePath = fpath\<rparr>,
            [RandomUUID, WriteFile pptx fpath]))"

text \<open>The form \<^verbatim>\<open>randomUUID\<close> gives its result: 36 characters, hexadecimal digits in
  groups of 8, 4, 4, 4 and 12 with hyphens between them.\<close>

definition is_uuid :: "string \<Rightarrow> bool" where
  "is_uuid u =
     (length u = 36 \<and>
      (\<forall>i < 36. if i \<in> {8, 13, 18, 23} then u ! i = CHR ''-''
                 else u ! i \<in> set ''0123456789abcdef''))"

section \<open>Stand-ins for the external calls and words of the specification\<close>

text \<open>An external call that answers \<open>v\<close> whatever it is asked, and one that throws \<open>e\<close>;
  \<open>answers2\<close> and \<open>throws2\<close> are the same for a call of two arguments.\<close>

definition answers :: "'b \<Rightarrow> 'a \<Rightarrow> js_error + 'b" where
  "answers v request = Inr v"

definition throws :: "js_error \<Rightarrow> 'a \<Rightarrow> js_error + 'b" where
  "throws e request = Inl e"

definition answers2 :: "'c \<Rightarrow> 'a \<Rightarrow> 'b \<Rightarrow> js_error + 'c" where
  "answers2 v a b = Inr v"

definition throws2 :: "js_error \<Rightarrow> 'a \<Rightarrow> 'b \<Rightarrow> js_error + 'c" where
  "throws2 e a b = Inl e"

text \<open>A stand-in for \<open>large_toString\<close> in a run where every number is a safe integer.\<close>

definition no_large_numbers :: "int \<Rightarrow> string" where
  "no_large_numbers k = []"

text \<open>An English-language subtitle entry: an object whose \<^verbatim>\<open>languageCode\<close> is the string
  \<^verbatim>\<open>en\<close>.\<close>

fun english_entry :: "jsval \<Rightarrow> bool" where
  "english_entry (JObj fs) = (map_of fs ''languageCode'' = Some (JStr ''en''))"
| "english_entry JUndefined = False"
| "english_entry JNull = False"
| "english_entry (JBool b) = False"
| "english_entry (JNum n) = False"
| "english_entry (JStr s) = False"
| "english_entry (JArr vs) = False"

fun is_object :: "jsval \<Rightarrow> bool" where
  "is_object (JObj fs) = True"
| "is_object JUndefined = False"
| "is_object JNull = False"
| "is_object (JBool b) = False"
| "is_object (JNum n) = False"
| "is_object (JStr s) = False"
| "is_object (JArr vs) = False"

text \<open>The field of an object, \<open>None\<close> when the object has no such field.\<close>

fun field :: "jsval \<Rightarrow> string \<Rightarrow> jsval option" where
  "field (JObj fs) k = map_of fs k"
| "field JUndefined k = None"
| "field JNull k = None"
| "field (JBool b) k = None"
| "field (JNum n) k = None"
| "field (JStr s) k = None"
| "field (JArr vs) k = None"

text \<open>Reading a decimal numeral, to compare with what the prompt carries. The reader
  accepts exactly the numerals in standard form: one or more of the ten digits, no leading
  zero except in \<^verbatim>\<open>0\<close> itself, and an optional minus sign in front of a numeral other than
  \<^verbatim>\<open>0\<close>. Any other string, and any other character in it, gives \<open>None\<close>.\<close>

definition digit_value :: "char \<Rightarrow> nat option" where
  "digit_value c = (if c \<in> set ''0123456789'' then Some (of_char c - 48) else None)"

fun read_digits :: "nat \<Rightarrow> string \<Rightarrow> nat option" where
  "read_digits a [] = Some a"
| "read_digits a (c # cs) =
     (case digit_value c of None \<Rightarrow> None | Some d \<Rightarrow> read_digits (10 * a + d) cs)"

definition read_natural :: "string \<Rightarrow> nat option" where
  "read_natural s =
     (if s = [] \<or> (hd s = CHR ''0'' \<and> s \<noteq> ''0'') then None else read_digits 0 s)"

definition read_decimal :: "string \<Rightarrow> int option" where
  "read_decimal s =
     (case s of
        [] \<Rightarrow> None
      | c # r \<Rightarrow>
          if c = CHR ''-''
          then (case read_natural r of
                  None \<Rightarrow> None
                | Some n \<Rightarrow> if n = 0 then None else Some (- int n))
          else map_option int (read_natural s))"

text \<open>The slides the specification describes: a title slide with the title and the
  description, and for each entry a slide with its heading followed by one bullet per
  content string, numbered from \<open>i\<close>.\<close>

fun bullet_objects :: "nat \<Rightarrow> string list \<Rightarrow> text_object list" where
  "bullet_objects i [] = []"
| "bullet_objects i (b # bs) =
     \<lparr>obj_text = b, options = bullet_options i\<rparr> # bullet_objects (Suc i) bs"

definition content_slide :: "SlideContent \<Rightarrow> slide" where
  "content_slide sc =
     \<lparr>background = None,
      objects = \<lparr>obj_text = title sc, options = heading_options\<rparr> #
                bullet_objects 0 (content sc)\<rparr>"

definition title_slide :: "TitleDescription \<Rightarrow> slide" where
  "title_slide td =
     \<lparr>background = Some ''#ffffff'',
      objects = [\<lparr>obj_text = td_title td, options = title_options\<rparr>,
                 \<lparr>obj_text = description td, options = description_options\<rparr>]\<rparr>"

section \<open>Properties: the catch block\<close>

lemma catch_rethrow_Inr: "catch_rethrow msg (Inr v, evs) = (Inr v, evs)"
  by (simp add: catch_rethrow_def)

lemma catch_rethrow_Inl:
  "catch_rethrow msg (Inl e, evs) = (Inl (Error msg), evs @ [ConsoleError e])"
  by (simp add: catch_rethrow_def)

lemma catch_rethrow_cases:
  "(\<exists>v. fst (catch_rethrow msg r) = Inr v) \<or> fst (catch_rethrow msg r) = Inl (Error msg)"
  by (cases r; cases "fst r") (auto simp: catch_rethrow_def)

section \<open>Properties: the entry point\<close>

text \<open>
  C10. \<^verbatim>\<open>CreatePowerpoint\<close> is a stub: for every video identifier it returns
  \<^verbatim>\<open>undefined\<close> and performs no external call, so none of the pipeline steps.
\<close>

theorem CreatePowerpoint_is_stub:
  "fst (CreatePowerpoint videoId) = Inr JUndefined \<and> snd (CreatePowerpoint videoId) = []"
  by (simp add: CreatePowerpoint_def)

section \<open>Properties: video metadata fetcher\<close>

lemma is_en_object: "is_en (JObj fs) = Inr (english_entry (JObj fs))"
  by (auto simp: is_en_def split: option.splits)

text \<open>On an array of objects the search of the code is the library's \<open>find\<close>.\<close>

lemma find_loop_objects:
  "\<forall>s \<in> set entries. is_object s \<Longrightarrow>
   find_loop is_en entries =
     Inr (case find english_entry entries of None \<Rightarrow> JUndefined | Some s \<Rightarrow> s)"
proof (induction entries)
  case Nil
  then show ?case by simp
next
  case (Cons s entries)
  then obtain fs where s: "s = JObj fs" by (cases s) auto
  from Cons show ?case by (simp add: s is_en_object del: english_entry.simps)
qed

lemma find_english_object:
  "\<forall>s \<in> set entries. is_object s \<Longrightarrow> find english_entry entries = Some s \<Longrightarrow> is_object s"
  by (auto simp: find_Some_iff)

text \<open>
  C1, as the code has it. For every video-info response whose data carries a
  \<^verbatim>\<open>lengthSeconds\<close> field and, under \<^verbatim>\<open>subtitles.subtitles\<close>, an array of objects,
  \<^verbatim>\<open>GetVideoLengthAndSubtitles\<close> returns a \<^verbatim>\<open>VideoMetaData\<close> whose length is that
  \<^verbatim>\<open>lengthSeconds\<close> value and whose \<^verbatim>\<open>subtitlesURL\<close> is the \<^verbatim>\<open>url\<close> of the first entry with
  \<^verbatim>\<open>languageCode\<close> \<^verbatim>\<open>en\<close> when that url is truthy (a non-empty string), and \<^verbatim>\<open>null\<close> when
  there is no English entry or its url is missing or empty. The length does not depend on
  the subtitle entries.
\<close>

theorem GetVideoLengthAndSubtitles_metadata:
  assumes req: "axios_request (video_info_options RAPID_API_KEY videoId) = Inr res"
    and len: "field (data res) ''lengthSeconds'' = Some len"
    and outer: "field (data res) ''subtitles'' = Some outer"
    and inner: "field outer ''subtitles'' = Some (JArr entries)"
    and objs: "\<forall>s \<in> set entries. is_object s"
  shows "fst (GetVideoLengthAndSubtitles axios_request RAPID_API_KEY videoId) =
           Inr \<lparr>length_md = len,
                subtitlesURL =
                  (case find english_entry entries of
                     None \<Rightarrow> JNull
                   | Some s \<Rightarrow>
                       (case field s ''url'' of
                          None \<Rightarrow> JNull
                        | Some u \<Rightarrow> if js_truthy u then u else JNull))\<rparr>"
proof -
  obtain fs where d: "data res = JObj fs" using len by (cases "data res") auto
  obtain gs where o: "outer = JObj gs" using inner by (cases outer) auto
  have g1: "js_get (data res) ''lengthSeconds'' = Inr len" using len by (simp add: d)
  have g2: "js_get (data res) ''subtitles'' = Inr outer" using outer by (simp add: d)
  have g3: "js_get outer ''subtitles'' = Inr (JArr entries)" using inner by (simp add: o)
  have g4: "find_loop is_en entries =
              Inr (case find english_entry entries of None \<Rightarrow> JUndefined | Some s \<Rightarrow> s)"
    by (rule find_loop_objects [OF objs])
  have m: "metadata_of_response res =
           Inr \<lparr>length_md = len,
                subtitlesURL =
                  (case find english_entry entries of
                     None \<Rightarrow> JNull
                   | Some s \<Rightarrow>
                       (case field s ''url'' of
                          None \<Rightarrow> JNull
                        | Some u \<Rightarrow> if js_truthy u then u else JNull))\<rparr>"
  proof (cases "find english_entry entries")
    case None
    then show ?thesis
      by (simp add: metadata_of_response_def g1 g2 g3 g4 js_get_opt_def js_or_def)
  next
    case (Some s)
    have "is_object s" by (rule find_english_object [OF objs Some])
    then obtain hs where s: "s = JObj hs" by (cases s) auto
    show ?thesis
      by (simp add: metadata_of_response_def g1 g2 g3 g4 Some s js_get_opt_def js_or_def
               split: option.splits)
  qed
  show ?thesis
    by (simp add: GetVideoLengthAndSubtitles_def req m catch_rethrow_Inr)
qed

text \<open>The theorem at a response with a French and an English track.\<close>

theorem GetVideoLengthAndSubtitles_metadata_witness:
  "fst (GetVideoLengthAndSubtitles
     (answers \<lparr>data = JObj [(''lengthSeconds'', JNum 212),
          (''subtitles'', JObj [(''subtitles'',
             JArr [JObj [(''languageCode'', JStr ''fr''), (''url'', JStr ''https://t/fr'')],
                   JObj [(''languageCode'', JStr ''en''), (''url'', JStr ''https://t/en'')]])])]\<rparr>)
     None ''dQw4'') =
   Inr \<lparr>length_md = JNum 212, subtitlesURL = JStr ''https://t/en''\<rparr>"
  using GetVideoLengthAndSubtitles_metadata
    [of "answers \<lparr>data = JObj [(''lengthSeconds'', JNum 212),
          (''subtitles'', JObj [(''subtitles'',
             JArr [JObj [(''languageCode'', JStr ''fr''), (''url'', JStr ''https://t/fr'')],
                   JObj [(''languageCode'', JStr ''en''), (''url'', JStr ''https://t/en'')]])])]\<rparr>"
        None "''dQw4''" _ "JNum 212" _
        "[JObj [(''languageCode'', JStr ''fr''), (''url'', JStr ''https://t/fr'')],
                   JObj [(''languageCode'', JStr ''en''), (''url'', JStr ''https://t/en'')]]"]
  by (simp add: answers_def)

text \<open>
  C1 as stated fails at the response
  \<^verbatim>\<open>{ subtitles: { subtitles: [{ languageCode: 'en', url: '' }] } }\<close>: the claim asks for
  length \<^verbatim>\<open>null\<close> (the field is absent) and for the url of the English entry, the empty
  string; the code returns length \<^verbatim>\<open>undefined\<close> and \<^verbatim>\<open>subtitlesURL\<close> \<^verbatim>\<open>null\<close>.
\<close>

theorem GetVideoLengthAndSubtitles_claim_counterexample:
  "fst (GetVideoLengthAndSubtitles
     (answers \<lparr>data = JObj [(''subtitles'', JObj [(''subtitles'',
             JArr [JObj [(''languageCode'', JStr ''en''), (''url'', JStr '''')]])])]\<rparr>)
     None ''dQw4'') = Inr \<lparr>length_md = JUndefined, subtitlesURL = JNull\<rparr>
   \<and> fst (GetVideoLengthAndSubtitles
     (answers \<lparr>data = JObj [(''subtitles'', JObj [(''subtitles'',
             JArr [JObj [(''languageCode'', JStr ''en''), (''url'', JStr '''')]])])]\<rparr>)
     None ''dQw4'') \<noteq> Inr \<lparr>length_md = JNull, subtitlesURL = JStr ''''\<rparr>"
  by (simp add: GetVideoLengthAndSubtitles_def answers_def metadata_of_response_def
        catch_rethrow_def is_en_def js_get_opt_def js_or_def)

section \<open>Properties: subtitle parser\<close>

text \<open>The visitor of xmldom collects the matching elements in document order.\<close>

lemma visit_document_order:
  "tagName \<noteq> ''*'' \<Longrightarrow>
     visitNode tagName n ls = ls @ filter (is_element_named tagName) (document_order n)"
  "tagName \<noteq> ''*'' \<Longrightarrow>
     visitChildren tagName cs ls =
       ls @ filter (is_element_named tagName) (concat (map document_order cs))"
  by (induction tagName n ls and tagName cs ls rule: visitNode_visitChildren.induct) auto

lemma getElementsByTagName_text:
  "getElementsByTagName doc ''text'' = elements_named ''text'' doc"
  by (cases doc) (simp add: visit_document_order)

lemma count_named_document_order:
  "length (filter (is_element_named t) (document_order n)) = count_named t n"
proof (induction t n rule: count_named.induct)
  case (1 t n cs)
  have "length (filter (is_element_named t) (concat (map document_order cs))) =
        sum_list (map (count_named t) cs)"
    using 1 by (induction cs) auto
  then show ?case by simp
qed simp_all

lemma length_elements_named:
  "length (elements_named t doc) = count_elements_named t doc"
proof (cases doc)
  case (Document cs)
  have "length (filter (is_element_named t) (concat (map document_order cs))) =
        sum_list (map (count_named t) cs)"
    by (induction cs) (auto simp: count_named_document_order)
  then show ?thesis by (simp add: Document)
qed

lemma str_or_empty: "str_or s '''' = s"
  by (simp add: str_or_def)

lemma parseXMLContent_parsed:
  assumes "axios_get url = Inr res"
    and "parseFromString (data res) ''application/xml'' = Inr (Some doc)"
  shows "fst (parseXMLContent axios_get parseFromString url) =
           Inr (Some (map (\<lambda>element. \<lparr>text = textContent element\<rparr>)
                        (elements_named ''text'' doc)))"
  using assms
  by (simp add: parseXMLContent_def catch_rethrow_Inr getElementsByTagName_text str_or_empty)

text \<open>
  C2. When the download succeeds and the body parses to a document with N elements named
  \<^verbatim>\<open>text\<close>, \<^verbatim>\<open>parseXMLContent\<close> returns exactly N fragments, in document order, and the
  text of each is the text content of its element (the empty string for an element
  without text).
\<close>

theorem parseXMLContent_fragments:
  assumes "axios_get url = Inr res"
    and "parseFromString (data res) ''application/xml'' = Inr (Some doc)"
  shows "\<exists>items.
           fst (parseXMLContent axios_get parseFromString url) = Inr (Some items) \<and>
           length items = count_elements_named ''text'' doc \<and>
           map text items = map textContent (elements_named ''text'' doc)"
  using assms parseXMLContent_parsed [of axios_get url res parseFromString doc]
  by (simp add: length_elements_named comp_def)

text \<open>The theorem at a document with three \<^verbatim>\<open>text\<close> elements, one of them empty and one
  nested in another element.\<close>

theorem parseXMLContent_fragments_witness:
  "fst (parseXMLContent (answers \<lparr>data = JStr ''<transcript/>''\<rparr>)
     (answers2 (Some (Document [Element ''transcript''
        [Element ''text'' [Text ''Hello '', Element ''b'' [Text ''world'']],
         Comment ''gap'',
         Element ''text'' [],
         Element ''p'' [Element ''text'' [CDATASection ''1 < 2'', Comment ''x'']]]])))
     ''https://t/en'') =
   Inr (Some [\<lparr>text = ''Hello world''\<rparr>, \<lparr>text = ''''\<rparr>, \<lparr>text = ''1 < 2''\<rparr>])"
  using parseXMLContent_fragments
    [of "answers \<lparr>data = JStr ''<transcript/>''\<rparr>" "''https://t/en''"
        "\<lparr>data = JStr ''<transcript/>''\<rparr>"
        "answers2 (Some (Document [Element ''transcript''
        [Element ''text'' [Text ''Hello '', Element ''b'' [Text ''world'']],
         Comment ''gap'',
         Element ''text'' [],
         Element ''p'' [Element ''text'' [CDATASection ''1 < 2'', Comment ''x'']]]]))"]
  by (auto simp: answers_def answers2_def)

text \<open>
  C3. When the document parses and has no element named \<^verbatim>\<open>text\<close>, \<^verbatim>\<open>parseXMLContent\<close>
  succeeds with the empty sequence: neither \<^verbatim>\<open>null\<close> nor an error.
\<close>

theorem parseXMLContent_no_text_elements:
  assumes "axios_get url = Inr res"
    and "parseFromString (data res) ''application/xml'' = Inr (Some doc)"
    and "count_elements_named ''text'' doc = 0"
  shows "fst (parseXMLContent axios_get parseFromString url) = Inr (Some [])"
proof -
  have "length (elements_named ''text'' doc) = 0"
    using assms(3) by (simp add: length_elements_named)
  then have "elements_named ''text'' doc = []" by simp
  with assms(1,2) parseXMLContent_parsed [of axios_get url res parseFromString doc]
  show ?thesis by simp
qed

theorem parseXMLContent_no_text_elements_witness:
  "fst (parseXMLContent (answers \<lparr>data = JStr ''<transcript/>''\<rparr>)
     (answers2 (Some (Document [Element ''transcript'' [Element ''p'' [Text ''Hello'']]])))
     ''https://t/en'') = Inr (Some [])"
  using parseXMLContent_no_text_elements
    [of "answers \<lparr>data = JStr ''<transcript/>''\<rparr>" "''https://t/en''"
        "\<lparr>data = JStr ''<transcript/>''\<rparr>"
        "answers2 (Some (Document [Element ''transcript'' [Element ''p'' [Text ''Hello'']]]))"]
  by (simp add: answers_def answers2_def)

text \<open>
  C9. \<^verbatim>\<open>parseXMLContent\<close> and \<^verbatim>\<open>ConvertToObjects\<close> never return \<^verbatim>\<open>null\<close>: every run returns
  an array or throws the generic error of its component.
\<close>

theorem parser_and_converter_never_null:
  "((\<exists>items. fst (parseXMLContent axios_get parseFromString url) = Inr (Some items)) \<or>
      fst (parseXMLContent axios_get parseFromString url) =
        Inl (Error ''Failed to parse XML content''))
   \<and> ((\<exists>entries. fst (ConvertToObjects chat_parse large_toString txt slideCount_arg) = Inr (Some entries)) \<or>
      fst (ConvertToObjects chat_parse large_toString txt slideCount_arg) =
        Inl (Error ''Failed to convert text to objects''))"
  by (auto simp: parseXMLContent_def ConvertToObjects_def Let_def catch_rethrow_def
        split: sum.splits option.splits)

section \<open>Properties: title and slide generators\<close>

text \<open>The equation of \<open>string_of_nat\<close> is used through the two lemmas below it.\<close>

declare string_of_nat.simps [simp del]

lemma digit_value_digit: "d < 10 \<Longrightarrow> digit_value (''0123456789'' ! d) = Some d"
proof -
  assume "d < 10"
  then have "d \<in> {0, 1, 2, 3, 4, 5, 6, 7, 8, 9}" by auto
  then show ?thesis by (auto simp: digit_value_def)
qed

lemma digit_value_Some: "digit_value c = Some d \<Longrightarrow> d < 10 \<and> c = ''0123456789'' ! d"
  by (auto simp: digit_value_def split: if_splits)

lemma digit_not_minus: "d < 10 \<Longrightarrow> ''0123456789'' ! d \<noteq> CHR ''-''"
proof -
  assume "d < 10"
  then have "d \<in> {0, 1, 2, 3, 4, 5, 6, 7, 8, 9}" by auto
  then show ?thesis by auto
qed

lemma digit_zero: "d < 10 \<Longrightarrow> ''0123456789'' ! d = CHR ''0'' \<Longrightarrow> d = 0"
proof -
  assume "d < 10" and z: "''0123456789'' ! d = CHR ''0''"
  then have "d \<in> {0, 1, 2, 3, 4, 5, 6, 7, 8, 9}" by auto
  with z show ?thesis by auto
qed

lemma read_digits_snoc:
  "read_digits a (s @ [c]) =
     (case read_digits a s of
        None \<Rightarrow> None
      | Some v \<Rightarrow> (case digit_value c of None \<Rightarrow> None | Some d \<Rightarrow> Some (10 * v + d)))"
  by (induction s arbitrary: a) (auto split: option.splits)

lemma string_of_nat_small: "n < 10 \<Longrightarrow> string_of_nat n = [''0123456789'' ! n]"
  by (subst string_of_nat.simps) simp

lemma string_of_nat_large:
  "\<not> n < 10 \<Longrightarrow>
     string_of_nat n = string_of_nat (n div 10) @ [''0123456789'' ! (n mod 10)]"
  by (subst string_of_nat.simps) simp

lemma read_digits_string_of_nat: "read_digits 0 (string_of_nat n) = Some n"
proof (induction n rule: string_of_nat.induct)
  case (1 n)
  show ?case
  proof (cases "n < 10")
    case True
    then show ?thesis by (simp add: string_of_nat_small digit_value_digit)
  next
    case False
    have "n mod 10 < 10" by simp
    with False 1 show ?thesis
      by (simp add: string_of_nat_large read_digits_snoc digit_value_digit
           )
  qed
qed

lemma string_of_nat_head:
  "\<exists>c r. string_of_nat n = c # r \<and> c \<noteq> CHR ''-'' \<and> (0 < n \<longrightarrow> c \<noteq> CHR ''0'')"
proof (induction n rule: string_of_nat.induct)
  case (1 n)
  show ?case
  proof (cases "n < 10")
    case True
    then show ?thesis
      using digit_zero [of n] by (auto simp: string_of_nat_small digit_not_minus)
  next
    case False
    then have "0 < n div 10" by simp
    with False 1 obtain c r where
      "string_of_nat (n div 10) = c # r" "c \<noteq> CHR ''-''" "c \<noteq> CHR ''0''"
      by blast
    with False show ?thesis by (simp add: string_of_nat_large)
  qed
qed

lemma read_natural_string_of_nat: "read_natural (string_of_nat n) = Some n"
proof (cases "n = 0")
  case True
  then show ?thesis by (simp add: read_natural_def digit_value_def string_of_nat_small)
next
  case False
  then obtain c r where cr: "string_of_nat n = c # r" "c \<noteq> CHR ''0''"
    using string_of_nat_head [of n] by auto
  have "read_digits 0 (c # r) = Some n"
    using read_digits_string_of_nat [of n] cr by simp
  with cr show ?thesis by (simp add: read_natural_def)
qed

text \<open>What is printed for a safe integer reads back as that integer.\<close>

lemma read_decimal_number_toString:
  assumes "isSafeInteger k"
  shows "read_decimal (number_toString large_toString k) = Some k"
proof (cases "k < 0")
  case True
  then have "nat (- k) \<noteq> 0" by simp
  with True assms show ?thesis
    using read_natural_string_of_nat [of "nat (- k)"]
    by (simp add: read_decimal_def number_toString_def)
next
  case False
  obtain c r where cr: "string_of_nat (nat k) = c # r" "c \<noteq> CHR ''-''"
    using string_of_nat_head [of "nat k"] by blast
  have "read_natural (c # r) = Some (nat k)"
    using read_natural_string_of_nat [of "nat k"] cr by simp
  with False cr assms show ?thesis
    by (simp add: read_decimal_def number_toString_def)
qed

text \<open>The reader accepts one string for each number: the standard numeral.\<close>

lemma read_digits_unique:
  "s \<noteq> [] \<Longrightarrow> hd s \<noteq> CHR ''0'' \<or> s = ''0'' \<Longrightarrow> read_digits 0 s = Some n \<Longrightarrow>
     s = string_of_nat n"
proof (induction s arbitrary: n rule: rev_induct)
  case Nil
  then show ?case by simp
next
  case (snoc c s)
  from snoc.prems(3) obtain v d where
    v: "read_digits 0 s = Some v" and d: "digit_value c = Some d" and n: "n = 10 * v + d"
    by (auto simp: read_digits_snoc split: option.splits)
  from d have d10: "d < 10" and c: "c = ''0123456789'' ! d"
    using digit_value_Some by auto
  show ?case
  proof (cases "s = []")
    case True
    with v have "v = 0" by simp
    with n d10 c True show ?thesis by (simp add: string_of_nat_small)
  next
    case False
    with snoc.prems(2) have h: "hd s \<noteq> CHR ''0''"
      by (cases s) auto
    with False v have s: "s = string_of_nat v"
      using snoc.IH by blast
    have "v \<noteq> 0"
    proof
      assume "v = 0"
      with s have "s = ''0''" by (simp add: string_of_nat_small)
      with h show False by simp
    qed
    with n d10 have big: "\<not> n < 10" and dv: "n div 10 = v" and md: "n mod 10 = d"
      by auto
    show ?thesis
      using s c by (simp add: string_of_nat_large [OF big] dv md)
  qed
qed

lemma read_natural_unique: "read_natural s = Some n \<Longrightarrow> s = string_of_nat n"
  using read_digits_unique [of s n]
  by (auto simp: read_natural_def split: if_splits)

lemma read_decimal_unique:
  assumes "isSafeInteger k" and "read_decimal s = Some k"
  shows "s = number_toString large_toString k"
proof (cases s)
  case Nil
  with assms(2) show ?thesis by (simp add: read_decimal_def)
next
  case (Cons c r)
  show ?thesis
  proof (cases "c = CHR ''-''")
    case True
    with Cons assms(2) obtain n where
      n: "read_natural r = Some n" "n \<noteq> 0" "k = - int n"
      by (auto simp: read_decimal_def split: option.splits if_splits)
    from n(1) have "r = string_of_nat n" by (rule read_natural_unique)
    with n Cons True assms(1) show ?thesis
      by (simp add: number_toString_def)
  next
    case False
    with Cons assms(2) obtain n where n: "read_natural s = Some n" "k = int n"
      by (auto simp: read_decimal_def)
    from n(1) have "s = string_of_nat n" by (rule read_natural_unique)
    with n assms(1) show ?thesis
      by (simp add: number_toString_def)
  qed
qed

lemma number_toString_10: "number_toString large_toString 10 = ''10''"
  by (simp add: number_toString_def isSafeInteger_def string_of_nat_small string_of_nat_large)

text \<open>
  C4. For every transcript and every slide count K (an integer in the safe range), the
  first thing \<^verbatim>\<open>ConvertToObjects\<close> does is send the model a request whose user message is the
  prompt template with the standard decimal numeral of K in the slide-count position and
  the transcript after it: the numeral reads as K and no other string does. An omitted
  count is 10, printed \<^verbatim>\<open>10\<close>. When the response carries a parsed payload whose
  \<^verbatim>\<open>arrayOfObjects\<close> has K entries, the function returns exactly that array.
\<close>

theorem ConvertToObjects_prompt_and_entries:
  assumes "isSafeInteger K"
  shows "hd (snd (ConvertToObjects chat_parse large_toString txt (Some K))) =
           ChatCompletionsParse (slides_request large_toString txt K)
       \<and> messages (slides_request large_toString txt K) ! 1 =
           (''user'', slides_prompt_head @ number_toString large_toString K @
                      slides_prompt_middle @ txt @ slides_prompt_tail)
       \<and> read_decimal (number_toString large_toString K) = Some K
       \<and> (\<forall>s. read_decimal s = Some K \<longrightarrow> s = number_toString large_toString K)
       \<and> ConvertToObjects chat_parse large_toString txt None =
           ConvertToObjects chat_parse large_toString txt (Some 10)
       \<and> messages (slides_request large_toString txt 10) ! 1 =
           (''user'', slides_prompt_head @ ''10'' @ slides_prompt_middle @ txt @
                      slides_prompt_tail)
       \<and> (chat_parse (slides_request large_toString txt K) = Inr completion \<and>
            first_parsed completion = Inr (Some payload) \<and>
            int (length (arrayOfObjects payload)) = K \<longrightarrow>
          fst (ConvertToObjects chat_parse large_toString txt (Some K)) =
            Inr (Some (arrayOfObjects payload)))"
proof -
  have a: "hd (snd (ConvertToObjects chat_parse large_toString txt (Some K))) =
           ChatCompletionsParse (slides_request large_toString txt K)"
    by (simp add: ConvertToObjects_def catch_rethrow_def split: sum.splits)
  have b: "messages (slides_request large_toString txt K) ! 1 =
           (''user'', slides_prompt_head @ number_toString large_toString K @
                      slides_prompt_middle @ txt @ slides_prompt_tail)"
    by (simp add: slides_request_def)
  have c: "read_decimal (number_toString large_toString K) = Some K"
    using assms by (rule read_decimal_number_toString)
  have d: "\<forall>s. read_decimal s = Some K \<longrightarrow> s = number_toString large_toString K"
    using assms read_decimal_unique by blast
  have e: "ConvertToObjects chat_parse large_toString txt None =
           ConvertToObjects chat_parse large_toString txt (Some 10)"
    by (simp add: ConvertToObjects_def)
  have f: "messages (slides_request large_toString txt 10) ! 1 =
           (''user'', slides_prompt_head @ ''10'' @ slides_prompt_middle @ txt @
                      slides_prompt_tail)"
    by (simp add: slides_request_def number_toString_10)
  have g: "chat_parse (slides_request large_toString txt K) = Inr completion \<and>
            first_parsed completion = Inr (Some payload) \<and>
            int (length (arrayOfObjects payload)) = K \<longrightarrow>
          fst (ConvertToObjects chat_parse large_toString txt (Some K)) =
            Inr (Some (arrayOfObjects payload))"
    by (simp add: ConvertToObjects_def catch_rethrow_Inr)
  from a b c d e f g show ?thesis by blast
qed

text \<open>The theorem at a request for two slides that the model answers with two entries.\<close>

theorem ConvertToObjects_prompt_and_entries_witness:
  "fst (ConvertToObjects
      (answers \<lparr>choices = [\<lparr>message = Some \<lparr>parsed = Some \<lparr>arrayOfObjects =
         [\<lparr>title = ''Cells'', content = [''a'', ''b'', ''c'']\<rparr>,
          \<lparr>title = ''Tissues'', content = [''d'', ''e'', ''f'']\<rparr>]\<rparr>\<rparr>\<rparr>]\<rparr>)
      no_large_numbers ''transcript'' (Some 2)) =
     Inr (Some [\<lparr>title = ''Cells'', content = [''a'', ''b'', ''c'']\<rparr>,
                \<lparr>title = ''Tissues'', content = [''d'', ''e'', ''f'']\<rparr>])
   \<and> messages (slides_request no_large_numbers ''transcript'' 2) ! 1 =
       (''user'', slides_prompt_head @ ''2'' @ slides_prompt_middle @ ''transcript'' @
                  slides_prompt_tail)
   \<and> read_decimal ''2'' = Some 2"
proof -
  have s: "isSafeInteger 2"
    by (simp add: isSafeInteger_def)
  have n: "number_toString no_large_numbers 2 = ''2''"
    by (simp add: number_toString_def isSafeInteger_def string_of_nat_small)
  show ?thesis
    using ConvertToObjects_prompt_and_entries
      [OF s, of "answers \<lparr>choices = [\<lparr>message = Some \<lparr>parsed = Some \<lparr>arrayOfObjects =
           [\<lparr>title = ''Cells'', content = [''a'', ''b'', ''c'']\<rparr>,
            \<lparr>title = ''Tissues'', content = [''d'', ''e'', ''f'']\<rparr>]\<rparr>\<rparr>\<rparr>]\<rparr>"
          no_large_numbers "''transcript''"
          "\<lparr>choices = [\<lparr>message = Some \<lparr>parsed = Some \<lparr>arrayOfObjects =
           [\<lparr>title = ''Cells'', content = [''a'', ''b'', ''c'']\<rparr>,
            \<lparr>title = ''Tissues'', content = [''d'', ''e'', ''f'']\<rparr>]\<rparr>\<rparr>\<rparr>]\<rparr>"
          "\<lparr>arrayOfObjects =
           [\<lparr>title = ''Cells'', content = [''a'', ''b'', ''c'']\<rparr>,
            \<lparr>title = ''Tissues'', content = [''d'', ''e'', ''f'']\<rparr>]\<rparr>"]
    by (simp add: answers_def first_parsed_def n)
qed

text \<open>
  C5. When the response carries a parsed payload, \<^verbatim>\<open>CreateTitleAndDescription\<close> returns
  that object as it is; when the response carries none (no first choice, no message, or a
  \<^verbatim>\<open>null\<close> payload), it throws the generic generation error.
\<close>

theorem CreateTitleAndDescription_result:
  assumes "chat_parse (title_request transcript) = Inr completion"
  shows "(first_parsed completion = Inr (Some td) \<longrightarrow>
            fst (CreateTitleAndDescription chat_parse transcript) = Inr td)
       \<and> ((\<forall>p. first_parsed completion \<noteq> Inr (Some p)) \<longrightarrow>
            fst (CreateTitleAndDescription chat_parse transcript) =
              Inl (Error ''Failed to generate title and description''))"
  using assms
  by (auto simp: CreateTitleAndDescription_def catch_rethrow_def
        split: sum.splits option.splits)

text \<open>The theorem at a response with a payload and at a refusal, which has none.\<close>

theorem CreateTitleAndDescription_result_witness:
  "fst (CreateTitleAndDescription
      (answers \<lparr>choices = [\<lparr>message = Some \<lparr>parsed =
         Some \<lparr>td_title = ''Cell biology'', description = ''An introduction''\<rparr>\<rparr>\<rparr>]\<rparr>)
      ''transcript'') = Inr \<lparr>td_title = ''Cell biology'', description = ''An introduction''\<rparr>
   \<and> fst (CreateTitleAndDescription
      (answers \<lparr>choices = [\<lparr>message = Some \<lparr>parsed = None\<rparr>\<rparr>]\<rparr>) ''transcript'') =
     Inl (Error ''Failed to generate title and description'')"
  using CreateTitleAndDescription_result
    [of "answers \<lparr>choices = [\<lparr>message = Some \<lparr>parsed =
         Some \<lparr>td_title = ''Cell biology'', description = ''An introduction''\<rparr>\<rparr>\<rparr>]\<rparr>"
        "''transcript''"
        "\<lparr>choices = [\<lparr>message = Some \<lparr>parsed =
         Some \<lparr>td_title = ''Cell biology'', description = ''An introduction''\<rparr>\<rparr>\<rparr>]\<rparr>"
        "\<lparr>td_title = ''Cell biology'', description = ''An introduction''\<rparr>"]
    CreateTitleAndDescription_result
    [of "answers \<lparr>choices = [\<lparr>message = Some \<lparr>parsed = None\<rparr>\<rparr>]\<rparr>"
        "''transcript''"
        "\<lparr>choices = [\<lparr>message = Some \<lparr>parsed = None\<rparr>\<rparr>]\<rparr>"]
  by (simp add: answers_def first_parsed_def)

section \<open>Properties: deck renderer\<close>

lemma length_bullet_objects: "length (bullet_objects i bs) = length bs"
  by (induction bs arbitrary: i) auto

lemma nth_bullet_objects:
  "j < length bs \<Longrightarrow>
     bullet_objects i bs ! j = \<lparr>obj_text = bs ! j, options = bullet_options (i + j)\<rparr>"
proof (induction bs arbitrary: i j)
  case Nil
  then show ?case by simp
next
  case (Cons b bs)
  then show ?case by (cases j) auto
qed

text \<open>The inner loop adds its bullets to the slide just appended, the outer loop appends
  one slide per entry.\<close>

lemma forEach_content_last:
  "forEach_content (length pptx) i bs (pptx @ [sl]) =
     pptx @ [sl\<lparr>objects := objects sl @ bullet_objects i bs\<rparr>]"
proof (induction bs arbitrary: i sl)
  case Nil
  then show ?case by simp
next
  case (Cons b bs)
  show ?case by (simp add: addText_def Cons.IH)
qed

lemma forEach_slides_append:
  "forEach_slides scs pptx = pptx @ map content_slide scs"
proof (induction scs arbitrary: pptx)
  case Nil
  then show ?case by simp
next
  case (Cons sc scs)
  show ?case
    by (simp add: addSlide_def addText_def forEach_content_last Cons.IH content_slide_def)
qed

lemma build_deck_slides:
  "build_deck td slides = title_slide td # map content_slide slides"
  by (simp add: build_deck_def addSlide_def set_background_def addText_def
        forEach_slides_append title_slide_def)

lemma split_on_absent: "c \<notin> set s \<Longrightarrow> split_on c s = [s]"
  by (induction s) auto

text \<open>Joining the temporary directory with a plain file name only puts them together.\<close>

lemma path_join_tmp:
  assumes "CHR ''/'' \<notin> set f" and "f \<noteq> []" and "f \<noteq> ''.''" and "f \<noteq> ''..''"
  shows "path_join ''/tmp'' f = ''/tmp/'' @ f"
proof -
  have l: "last f \<noteq> CHR ''/''" using assms(1,2) last_in_set by metis
  have s: "split_on CHR ''/'' f = [f]"
    using assms(1) by (rule split_on_absent)
  show ?thesis
    using assms(2,3,4) l by (simp add: path_join_def path_normalize_def s)
qed

lemma is_uuid_no_slash: "is_uuid u \<Longrightarrow> CHR ''/'' \<notin> set u"
proof
  assume u: "is_uuid u" and "CHR ''/'' \<in> set u"
  then obtain i where i: "i < length u" "u ! i = CHR ''/''" by (auto simp: in_set_conv_nth)
  with u have "i < 36" by (simp add: is_uuid_def)
  with u i show False by (auto simp: is_uuid_def split: if_splits)
qed

lemma file_name_plain:
  assumes "is_uuid uuid" and "CHR ''/'' \<notin> set userId"
  shows "path_join ''/tmp'' (''presentation-'' @ uuid @ ''-userId='' @ userId @ ''.pptx'') =
         ''/tmp/'' @ ''presentation-'' @ uuid @ ''-userId='' @ userId @ ''.pptx''"
  using assms is_uuid_no_slash [of uuid]
  by (intro path_join_tmp) auto

lemma sublist_file_name:
  "sublist userId (pre @ ''presentation-'' @ uuid @ ''-userId='' @ userId @ ''.pptx'')"
  unfolding sublist_def
  by (rule exI [of _ "pre @ ''presentation-'' @ uuid @ ''-userId=''"],
      rule exI [of _ "''.pptx''"]) simp

lemma renderer_events:
  "take 2 (snd (CreatePowerpointFromArrayOfObjects uuid writeFile td slides userId)) =
     [RandomUUID,
      WriteFile (build_deck td slides)
        (path_join ''/tmp'' (''presentation-'' @ uuid @ ''-userId='' @ userId @ ''.pptx''))]"
  by (simp add: CreatePowerpointFromArrayOfObjects_def Let_def catch_rethrow_def
        split: sum.splits)

text \<open>
  What the renderer does on every input. The deck handed to the writer has exactly M+1
  slides: the title slide, then one content slide per entry in input order. The file name
  is \<^verbatim>\<open>presentation-<random-id>-userId=<user-id>.pptx\<close> and contains the user identifier;
  the path is \<^verbatim>\<open>path.join('/tmp', fileName)\<close>, and both are returned when the write succeeds.
  For a user identifier without \<^verbatim>\<open>/\<close> the path is \<^verbatim>\<open>/tmp/\<close> followed by the file name.
\<close>

lemma renderer_deck_and_file_name:
  "\<exists>deck name path.
     take 2 (snd (CreatePowerpointFromArrayOfObjects uuid writeFile td slides userId)) =
       [RandomUUID, WriteFile deck path]
     \<and> deck = title_slide td # map content_slide slides
     \<and> length deck = length slides + 1
     \<and> name = ''presentation-'' @ uuid @ ''-userId='' @ userId @ ''.pptx''
     \<and> path = path_join ''/tmp'' name
     \<and> sublist userId name
     \<and> (writeFile deck path = Inr () \<longrightarrow>
          fst (CreatePowerpointFromArrayOfObjects uuid writeFile td slides userId) =
            Inr \<lparr>fileName = name, filePath = path\<rparr>)
     \<and> (is_uuid uuid \<and> CHR ''/'' \<notin> set userId \<longrightarrow>
          path = ''/tmp/'' @ name \<and> prefix ''/tmp/'' path \<and> sublist userId path)"
proof -
  define deck where "deck = build_deck td slides"
  define name where "name = ''presentation-'' @ uuid @ ''-userId='' @ userId @ ''.pptx''"
  define path where "path = path_join ''/tmp'' name"
  have e: "take 2 (snd (CreatePowerpointFromArrayOfObjects uuid writeFile td slides userId)) =
             [RandomUUID, WriteFile deck path]"
    unfolding deck_def path_def name_def by (rule renderer_events)
  have d: "deck = title_slide td # map content_slide slides"
    unfolding deck_def by (rule build_deck_slides)
  have l: "length deck = length slides + 1"
    unfolding d by simp
  have n: "sublist userId name"
    unfolding name_def using sublist_file_name [of userId "[]" uuid] by simp
  have w: "writeFile deck path = Inr () \<longrightarrow>
           fst (CreatePowerpointFromArrayOfObjects uuid writeFile td slides userId) =
             Inr \<lparr>fileName = name, filePath = path\<rparr>"
    unfolding deck_def path_def name_def
    by (simp add: CreatePowerpointFromArrayOfObjects_def Let_def catch_rethrow_Inr)
  have p: "is_uuid uuid \<and> CHR ''/'' \<notin> set userId \<longrightarrow>
           path = ''/tmp/'' @ name \<and> prefix ''/tmp/'' path \<and> sublist userId path"
  proof
    assume a: "is_uuid uuid \<and> CHR ''/'' \<notin> set userId"
    then have eq: "path = ''/tmp/'' @ name"
      unfolding path_def name_def using file_name_plain [of uuid userId] by simp
    have "sublist userId (''/tmp/'' @ name)"
      unfolding name_def by (rule sublist_file_name)
    with eq show "path = ''/tmp/'' @ name \<and> prefix ''/tmp/'' path \<and> sublist userId path"
      by simp
  qed
  from e d l name_def path_def n w p show ?thesis by blast
qed

text \<open>
  C6. The claim asks, for every user identifier, for a file under the temporary directory
  whose path contains the identifier. The renderer puts the identifier into the file name
  as it comes and joins the name onto \<^verbatim>\<open>/tmp\<close> with \<^verbatim>\<open>path.join\<close>, which normalises the
  result. For the user identifier \<^verbatim>\<open>a/../../b\<close>, with the write succeeding, the two
  \<^verbatim>\<open>..\<close> segments remove the first part of the file name and \<^verbatim>\<open>tmp\<close>: the deck is written to
  \<^verbatim>\<open>/b.pptx\<close>, and that path is returned. It is not under \<^verbatim>\<open>/tmp/\<close> and does not contain
  the identifier.
\<close>

theorem CreatePowerpointFromArrayOfObjects_escapes_tmp:
  "CreatePowerpointFromArrayOfObjects ''123e4567-e89b-12d3-a456-426614174000''
          (answers2 ()) \<lparr>td_title = ''T'', description = ''D''\<rparr> [] ''a/../../b'' =
     (Inr \<lparr>fileName = ''presentation-123e4567-e89b-12d3-a456-426614174000-userId=a/../../b.pptx'',
           filePath = ''/b.pptx''\<rparr>,
      [RandomUUID,
       WriteFile (build_deck \<lparr>td_title = ''T'', description = ''D''\<rparr> []) ''/b.pptx''])
   \<and> \<not> prefix ''/tmp/'' ''/b.pptx''
   \<and> \<not> sublist ''a/../../b'' ''/b.pptx''"
  by (simp add: CreatePowerpointFromArrayOfObjects_def Let_def catch_rethrow_def answers2_def
        path_join_def path_normalize_def sublist_Cons_right)

text \<open>
  C8. On the content slide of every entry, the bullet for the content string at index
  \<open>i\<close> carries that string and sits at the vertical position \<open>1.8 + i * 1\<close> inches: the
  base offset plus \<open>i\<close> times the increment 1, so the next bullet is exactly 1 below.
\<close>

theorem bullets_stacked_at_fixed_offset:
  assumes "k < length slides" and "i < length (content (slides ! k))"
  shows "obj_text (objects (build_deck td slides ! Suc k) ! Suc i) = content (slides ! k) ! i
       \<and> opt_y (options (objects (build_deck td slides ! Suc k) ! Suc i)) =
           Inches (18 / 10 + of_nat i * 1)
       \<and> (Suc i < length (content (slides ! k)) \<longrightarrow>
            opt_y (options (objects (build_deck td slides ! Suc k) ! Suc (Suc i))) =
              Inches (18 / 10 + of_nat i * 1 + 1))"
  using assms
  by (simp add: build_deck_slides content_slide_def nth_bullet_objects bullet_options_def)

text \<open>The theorem at the second of three bullets on the first content slide.\<close>

theorem bullets_stacked_at_fixed_offset_witness:
  "opt_y (options (objects (build_deck \<lparr>td_title = ''T'', description = ''D''\<rparr>
       [\<lparr>title = ''Cells'', content = [''a'', ''b'', ''c'']\<rparr>] ! Suc 0) ! Suc 1)) =
     Inches (28 / 10)
   \<and> opt_y (options (objects (build_deck \<lparr>td_title = ''T'', description = ''D''\<rparr>
       [\<lparr>title = ''Cells'', content = [''a'', ''b'', ''c'']\<rparr>] ! Suc 0) ! Suc (Suc 1))) =
     Inches (38 / 10)"
  using bullets_stacked_at_fixed_offset
    [of 0 "[\<lparr>title = ''Cells'', content = [''a'', ''b'', ''c'']\<rparr>]" 1
        "\<lparr>td_title = ''T'', description = ''D''\<rparr>"]
  by simp

section \<open>Properties: error handling of the components\<close>

text \<open>
  C7. Each component either returns or throws its own generic error, whatever the
  external calls do; the five messages differ. A failure of the transport (the request,
  the download, the completion call, the file write), a body that is not the expected
  document, a document the parser does not return, and a completion without choices or
  payload all end in the generic error of the component they occur in, and the original
  error goes to the log only.
\<close>

theorem failures_surface_as_generic_errors:
  "((\<exists>md. fst (GetVideoLengthAndSubtitles axios_request RAPID_API_KEY videoId) = Inr md) \<or>
      fst (GetVideoLengthAndSubtitles axios_request RAPID_API_KEY videoId) =
        Inl (Error ''Failed to get video length and subtitles''))
   \<and> ((\<exists>items. fst (parseXMLContent axios_get parseFromString url) = Inr items) \<or>
      fst (parseXMLContent axios_get parseFromString url) =
        Inl (Error ''Failed to parse XML content''))
   \<and> ((\<exists>td. fst (CreateTitleAndDescription chat_parse_td transcript) = Inr td) \<or>
      fst (CreateTitleAndDescription chat_parse_td transcript) =
        Inl (Error ''Failed to generate title and description''))
   \<and> ((\<exists>entries. fst (ConvertToObjects chat_parse large_toString txt slideCount_arg) = Inr entries) \<or>
      fst (ConvertToObjects chat_parse large_toString txt slideCount_arg) =
        Inl (Error ''Failed to convert text to objects''))
   \<and> ((\<exists>file. fst (CreatePowerpointFromArrayOfObjects uuid writeFile titleAndDescription
                      slides userId) = Inr file) \<or>
      fst (CreatePowerpointFromArrayOfObjects uuid writeFile titleAndDescription slides userId) =
        Inl (Error ''Failed to create Powerpoint presentation''))
   \<and> distinct [''Failed to get video length and subtitles'', ''Failed to parse XML content'',
         ''Failed to generate title and description'', ''Failed to convert text to objects'',
         ''Failed to create Powerpoint presentation'']
   \<and> GetVideoLengthAndSubtitles (throws e) RAPID_API_KEY videoId =
       (Inl (Error ''Failed to get video length and subtitles''),
        [AxiosRequest (video_info_options RAPID_API_KEY videoId), ConsoleError e])
   \<and> fst (GetVideoLengthAndSubtitles (answers \<lparr>data = JStr body\<rparr>) RAPID_API_KEY videoId) =
       Inl (Error ''Failed to get video length and subtitles'')
   \<and> parseXMLContent (throws e) parseFromString url =
       (Inl (Error ''Failed to parse XML content''), [AxiosGet url, ConsoleError e])
   \<and> parseXMLContent (answers res) (throws2 e) url =
       (Inl (Error ''Failed to parse XML content''),
        [AxiosGet url, ParseFromString (data res) ''application/xml'', ConsoleError e])
   \<and> fst (parseXMLContent (answers res) (answers2 None) url) =
       Inl (Error ''Failed to parse XML content'')
   \<and> CreateTitleAndDescription (throws e) transcript =
       (Inl (Error ''Failed to generate title and description''),
        [ChatCompletionsParse (title_request transcript), ConsoleError e])
   \<and> fst (CreateTitleAndDescription (answers \<lparr>choices = []\<rparr>) transcript) =
       Inl (Error ''Failed to generate title and description'')
   \<and> fst (CreateTitleAndDescription (answers \<lparr>choices = [\<lparr>message = None\<rparr>]\<rparr>) transcript) =
       Inl (Error ''Failed to generate title and description'')
   \<and> ConvertToObjects (throws e) large_toString txt (Some K) =
       (Inl (Error ''Failed to convert text to objects''),
        [ChatCompletionsParse (slides_request large_toString txt K), ConsoleError e])
   \<and> fst (ConvertToObjects (answers \<lparr>choices = []\<rparr>) large_toString txt slideCount_arg) =
       Inl (Error ''Failed to convert text to objects'')
   \<and> fst (ConvertToObjects (answers \<lparr>choices = [\<lparr>message = None\<rparr>]\<rparr>) large_toString txt
            slideCount_arg) =
       Inl (Error ''Failed to convert text to objects'')
   \<and> fst (ConvertToObjects (answers \<lparr>choices = [\<lparr>message = Some \<lparr>parsed = None\<rparr>\<rparr>]\<rparr>)
            large_toString txt slideCount_arg) =
       Inl (Error ''Failed to convert text to objects'')
   \<and> fst (CreateTitleAndDescription
            (answers \<lparr>choices = [\<lparr>message = Some \<lparr>parsed = None\<rparr>\<rparr>]\<rparr>) transcript) =
       Inl (Error ''Failed to generate title and description'')
   \<and> fst (CreatePowerpointFromArrayOfObjects uuid (throws2 e) titleAndDescription slides
            userId) = Inl (Error ''Failed to create Powerpoint presentation'')
   \<and> last (snd (CreatePowerpointFromArrayOfObjects uuid (throws2 e) titleAndDescription slides
                  userId)) = ConsoleError e"
proof -
  have c1: "(\<exists>md. fst (GetVideoLengthAndSubtitles axios_request RAPID_API_KEY videoId) = Inr md)
      \<or> fst (GetVideoLengthAndSubtitles axios_request RAPID_API_KEY videoId) =
        Inl (Error ''Failed to get video length and subtitles'')"
    unfolding GetVideoLengthAndSubtitles_def by (rule catch_rethrow_cases)
  have c2: "(\<exists>items. fst (parseXMLContent axios_get parseFromString url) = Inr items) \<or>
      fst (parseXMLContent axios_get parseFromString url) =
        Inl (Error ''Failed to parse XML content'')"
    unfolding parseXMLContent_def by (rule catch_rethrow_cases)
  have c3: "(\<exists>td. fst (CreateTitleAndDescription chat_parse_td transcript) = Inr td) \<or>
      fst (CreateTitleAndDescription chat_parse_td transcript) =
        Inl (Error ''Failed to generate title and description'')"
    unfolding CreateTitleAndDescription_def by (rule catch_rethrow_cases)
  have c4: "(\<exists>entries. fst (ConvertToObjects chat_parse large_toString txt slideCount_arg) = Inr entries) \<or>
      fst (ConvertToObjects chat_parse large_toString txt slideCount_arg) =
        Inl (Error ''Failed to convert text to objects'')"
    unfolding ConvertToObjects_def Let_def by (rule catch_rethrow_cases)
  have c5: "(\<exists>file. fst (CreatePowerpointFromArrayOfObjects uuid writeFile titleAndDescription
                      slides userId) = Inr file) \<or>
      fst (CreatePowerpointFromArrayOfObjects uuid writeFile titleAndDescription slides userId) =
        Inl (Error ''Failed to create Powerpoint presentation'')"
    unfolding CreatePowerpointFromArrayOfObjects_def Let_def by (rule catch_rethrow_cases)
  have d: "distinct [''Failed to get video length and subtitles'', ''Failed to parse XML content'',
         ''Failed to generate title and description'', ''Failed to convert text to objects'',
         ''Failed to create Powerpoint presentation'']"
    by simp
  have t1: "GetVideoLengthAndSubtitles (throws e) RAPID_API_KEY videoId =
       (Inl (Error ''Failed to get video length and subtitles''),
        [AxiosRequest (video_info_options RAPID_API_KEY videoId), ConsoleError e])"
    by (simp add: GetVideoLengthAndSubtitles_def throws_def catch_rethrow_Inl)
  have t2: "fst (GetVideoLengthAndSubtitles (answers \<lparr>data = JStr body\<rparr>) RAPID_API_KEY videoId)
       = Inl (Error ''Failed to get video length and subtitles'')"
    by (simp add: GetVideoLengthAndSubtitles_def answers_def metadata_of_response_def
          catch_rethrow_Inl)
  have t3: "parseXMLContent (throws e) parseFromString url =
       (Inl (Error ''Failed to parse XML content''), [AxiosGet url, ConsoleError e])"
    by (simp add: parseXMLContent_def throws_def catch_rethrow_Inl)
  have t4: "parseXMLContent (answers res) (throws2 e) url =
       (Inl (Error ''Failed to parse XML content''),
        [AxiosGet url, ParseFromString (data res) ''application/xml'', ConsoleError e])"
    by (simp add: parseXMLContent_def answers_def throws2_def catch_rethrow_Inl)
  have t5: "fst (parseXMLContent (answers res) (answers2 None) url) =
       Inl (Error ''Failed to parse XML content'')"
    by (simp add: parseXMLContent_def answers_def answers2_def catch_rethrow_Inl)
  have t6: "CreateTitleAndDescription (throws e) transcript =
       (Inl (Error ''Failed to generate title and description''),
        [ChatCompletionsParse (title_request transcript), ConsoleError e])"
    by (simp add: CreateTitleAndDescription_def throws_def catch_rethrow_Inl)
  have t7: "fst (CreateTitleAndDescription (answers \<lparr>choices = []\<rparr>) transcript) =
       Inl (Error ''Failed to generate title and description'')"
    by (simp add: CreateTitleAndDescription_def answers_def first_parsed_def catch_rethrow_Inl)
  have t8: "fst (CreateTitleAndDescription (answers \<lparr>choices = [\<lparr>message = None\<rparr>]\<rparr>) transcript)
       = Inl (Error ''Failed to generate title and description'')"
    by (simp add: CreateTitleAndDescription_def answers_def first_parsed_def catch_rethrow_Inl)
  have t9: "ConvertToObjects (throws e) large_toString txt (Some K) =
       (Inl (Error ''Failed to convert text to objects''),
        [ChatCompletionsParse (slides_request large_toString txt K), ConsoleError e])"
    by (simp add: ConvertToObjects_def throws_def catch_rethrow_Inl)
  have t10: "fst (ConvertToObjects (answers \<lparr>choices = []\<rparr>) large_toString txt slideCount_arg) =
       Inl (Error ''Failed to convert text to objects'')"
    by (simp add: ConvertToObjects_def Let_def answers_def first_parsed_def catch_rethrow_Inl)
  have t11: "fst (ConvertToObjects (answers \<lparr>choices = [\<lparr>message = None\<rparr>]\<rparr>) large_toString txt
                 slideCount_arg)
       = Inl (Error ''Failed to convert text to objects'')"
    by (simp add: ConvertToObjects_def Let_def answers_def first_parsed_def catch_rethrow_Inl)
  have t14: "fst (ConvertToObjects (answers \<lparr>choices = [\<lparr>message = Some \<lparr>parsed = None\<rparr>\<rparr>]\<rparr>)
                 large_toString txt slideCount_arg)
       = Inl (Error ''Failed to convert text to objects'')"
    by (simp add: ConvertToObjects_def Let_def answers_def first_parsed_def catch_rethrow_Inl)
  have t15: "fst (CreateTitleAndDescription
                 (answers \<lparr>choices = [\<lparr>message = Some \<lparr>parsed = None\<rparr>\<rparr>]\<rparr>) transcript)
       = Inl (Error ''Failed to generate title and description'')"
    by (simp add: CreateTitleAndDescription_def answers_def first_parsed_def catch_rethrow_Inl)
  have t12: "fst (CreatePowerpointFromArrayOfObjects uuid (throws2 e) titleAndDescription slides
            userId) = Inl (Error ''Failed to create Powerpoint presentation'')"
    by (simp add: CreatePowerpointFromArrayOfObjects_def Let_def throws2_def catch_rethrow_Inl)
  have t13: "last (snd (CreatePowerpointFromArrayOfObjects uuid (throws2 e) titleAndDescription
                  slides userId)) = ConsoleError e"
    by (simp add: CreatePowerpointFromArrayOfObjects_def Let_def throws2_def catch_rethrow_Inl)
  show ?thesis
    using c1 c2 c3 c4 c5 d t1 t2 t3 t4 t5 t6 t7 t8 t9 t10 t11 t12 t13 t14 t15 by blast
qed

end
